theory Spec2Isabelle
  imports Complex_Main
begin

section \<open>Stress and strain around an elliptical inclusion: the model of main.py\<close>

text \<open>
  The script main.py evaluates closed-form stress and strain fields on a polar grid and
  compares the von Mises equivalent stress with a yield stress.

  Numbers. The script computes with IEEE double precision floats. They are read here as
  real numbers: \<open>+\<close>, \<open>-\<close>, \<open>*\<close>, \<open>/\<close>, \<open>**2\<close>, \<open>np.cos\<close>, \<open>np.sin\<close> and
  \<open>np.sqrt\<close> are the exact operations of \<^typ>\<open>real\<close>. Rounding and overflow are
  outside this model.

  Where the script leaves the real numbers, the model says so instead of following
  HOL's total division and square root (\<open>x / 0 = 0\<close>, \<open>sqrt (- x) = - sqrt x\<close>):
  \<^item> the scalar parameters \<open>G1\<close>, \<open>E\<close> and \<open>G\<close> are Python floats, and dividing a
    Python float by zero raises \<open>ZeroDivisionError\<close>;
  \<^item> the coordinates \<open>r\<close> and \<open>theta\<close> are elements of NumPy arrays, and dividing by a
    zero element, or taking the square root of a negative element, does not raise but
    yields \<open>inf\<close> or \<open>nan\<close>.
  A result is \<open>Inr v\<close> when the script computes the real number \<open>v\<close>, and \<open>Inl e\<close> with
  the first departure \<open>e\<close> from real arithmetic that the evaluation meets, in Python's
  evaluation order (left operand first); the model does not follow a computation past
  that point.
\<close>

datatype error = ZeroDivisionError | NonFinite

subsection \<open>The stress functions (main.py, lines 32 to 41)\<close>

text \<open>
  In all three functions the quotient \<open>a**2 / r**2\<close> is evaluated before \<open>G / G1\<close>,
  so \<open>r = 0\<close> is met first: with \<open>r = 0\<close> and \<open>G1 = 0\<close> Python computes \<open>inf\<close> or
  \<open>nan\<close> and then raises, and the model reports \<open>NonFinite\<close>.
\<close>

definition stress_xx :: "real \<Rightarrow> real \<Rightarrow> real \<Rightarrow> real \<Rightarrow> real \<Rightarrow> real \<Rightarrow> real \<Rightarrow> error + real" where
  "stress_xx r theta P1 P0 a G G1 =
     (if r = 0 then Inl NonFinite
      else if G1 = 0 then Inl ZeroDivisionError
      else Inr (P1 * (1 + (a\<^sup>2 / r\<^sup>2) * cos (2 * theta))
                + P0 * (a\<^sup>2 / r\<^sup>2) * cos (2 * theta) * (G / G1)))"

definition stress_yy :: "real \<Rightarrow> real \<Rightarrow> real \<Rightarrow> real \<Rightarrow> real \<Rightarrow> real \<Rightarrow> real \<Rightarrow> error + real" where
  "stress_yy r theta P2 P0 a G G1 =
     (if r = 0 then Inl NonFinite
      else if G1 = 0 then Inl ZeroDivisionError
      else Inr (P2 * (1 - (a\<^sup>2 / r\<^sup>2) * cos (2 * theta))
                + P0 * (a\<^sup>2 / r\<^sup>2) * cos (2 * theta) * (G / G1)))"

definition stress_xy :: "real \<Rightarrow> real \<Rightarrow> real \<Rightarrow> real \<Rightarrow> real \<Rightarrow> real \<Rightarrow> error + real" where
  "stress_xy r theta P0 a G G1 =
     (if r = 0 then Inl NonFinite
      else if G1 = 0 then Inl ZeroDivisionError
      else Inr (- P0 * (a\<^sup>2 / r\<^sup>2) * sin (2 * theta) * (G / G1)))"

subsection \<open>The strain functions (main.py, lines 44 to 53)\<close>

definition strain_xx :: "real \<Rightarrow> real \<Rightarrow> real \<Rightarrow> real \<Rightarrow> error + real" where
  "strain_xx sigma_xx sigma_yy E nu =
     (if E = 0 then Inl ZeroDivisionError
      else Inr ((1 / E) * (sigma_xx - nu * sigma_yy)))"

definition strain_yy :: "real \<Rightarrow> real \<Rightarrow> real \<Rightarrow> real \<Rightarrow> error + real" where
  "strain_yy sigma_xx sigma_yy E nu =
     (if E = 0 then Inl ZeroDivisionError
      else Inr ((1 / E) * (sigma_yy - nu * sigma_xx)))"

definition strain_xy :: "real \<Rightarrow> real \<Rightarrow> error + real" where
  "strain_xy sigma_xy G =
     (if G = 0 then Inl ZeroDivisionError
      else Inr ((1 / G) * sigma_xy))"

subsection \<open>Sequencing\<close>

text \<open>
  A later statement of the script works on the result of an earlier one; a departure
  met earlier is the result of the whole.
\<close>

definition and_then :: "error + 'a \<Rightarrow> ('a \<Rightarrow> error + 'b) \<Rightarrow> error + 'b" where
  "and_then m f = (case m of Inl e \<Rightarrow> Inl e | Inr v \<Rightarrow> f v)"

subsection \<open>The strains of a grid point (main.py, lines 56 to 63)\<close>

text \<open>
  \<open>e_xx = strain_xx(sigma_xx, sigma_yy, E, nu)\<close> with
  \<open>sigma_xx = stress_xx(R, Theta, P1, P0, a, G, G1)\<close> and
  \<open>sigma_yy = stress_yy(R, Theta, P2, P0, a, G, G1)\<close>, at one point \<open>(r, theta)\<close> of the
  grid and with the module's scalars as parameters; likewise \<open>e_yy\<close> and \<open>e_xy\<close>.
\<close>

definition e_xx :: "real \<Rightarrow> real \<Rightarrow> real \<Rightarrow> real \<Rightarrow> real \<Rightarrow> real \<Rightarrow> real \<Rightarrow> real \<Rightarrow> real \<Rightarrow> real \<Rightarrow> error + real" where
  "e_xx r theta P1 P2 P0 a G G1 E nu =
     and_then (stress_xx r theta P1 P0 a G G1) (\<lambda>sigma_xx.
     and_then (stress_yy r theta P2 P0 a G G1) (\<lambda>sigma_yy.
     strain_xx sigma_xx sigma_yy E nu))"

definition e_yy :: "real \<Rightarrow> real \<Rightarrow> real \<Rightarrow> real \<Rightarrow> real \<Rightarrow> real \<Rightarrow> real \<Rightarrow> real \<Rightarrow> real \<Rightarrow> real \<Rightarrow> error + real" where
  "e_yy r theta P1 P2 P0 a G G1 E nu =
     and_then (stress_xx r theta P1 P0 a G G1) (\<lambda>sigma_xx.
     and_then (stress_yy r theta P2 P0 a G G1) (\<lambda>sigma_yy.
     strain_yy sigma_xx sigma_yy E nu))"

definition e_xy :: "real \<Rightarrow> real \<Rightarrow> real \<Rightarrow> real \<Rightarrow> real \<Rightarrow> real \<Rightarrow> error + real" where
  "e_xy r theta P0 a G G1 =
     and_then (stress_xy r theta P0 a G G1) (\<lambda>sigma_xy.
     strain_xy sigma_xy G)"

subsection \<open>Equivalent stress and yield mask of a grid point (main.py, lines 66 and 69)\<close>

text \<open>
  \<open>np.sqrt\<close> of a negative element is \<open>nan\<close>. The comparison \<open>sigma_e > yield_stress\<close>
  is the order of the reals.
\<close>

definition sigma_e :: "real \<Rightarrow> real \<Rightarrow> real \<Rightarrow> error + real" where
  "sigma_e sigma_xx sigma_yy sigma_xy =
     (if sigma_xx\<^sup>2 + sigma_yy\<^sup>2 - sigma_xx * sigma_yy + 3 * sigma_xy\<^sup>2 < 0 then Inl NonFinite
      else Inr (sqrt (sigma_xx\<^sup>2 + sigma_yy\<^sup>2 - sigma_xx * sigma_yy + 3 * sigma_xy\<^sup>2)))"

definition plastic_boundary :: "real \<Rightarrow> real \<Rightarrow> bool" where
  "plastic_boundary sigma_e_val yield_stress = (sigma_e_val > yield_stress)"

subsection \<open>The parameters of the script (main.py, lines 11 to 20)\<close>

text \<open>
  The module-level names of the script carry the prefix \<open>main_\<close> here: \<open>a\<close>, \<open>G\<close>,
  \<open>r\<close>, \<open>theta\<close>, \<open>sigma_xx\<close> and the others are also the parameter names of its
  functions.
\<close>

definition main_a :: real where "main_a = 0.02"
definition main_b :: real where "main_b = 0.015"
definition main_P1 :: real where "main_P1 = 150"
definition main_P2 :: real where "main_P2 = 150"
definition main_P0 :: real where "main_P0 = 50"
definition main_G :: real where "main_G = 810"
definition main_G1 :: real where "main_G1 = 1216"
definition main_E :: real where "main_E = 200000"
definition main_nu :: real where "main_nu = 0.3"
definition main_yield_stress :: real where "main_yield_stress = 250"

subsection \<open>The coordinate grid (main.py, lines 23 to 25)\<close>

text \<open>
  \<open>np.linspace(start, stop, num)\<close> of the NumPy library: \<open>num\<close> evenly spaced samples
  over the interval from \<open>start\<close> to \<open>stop\<close>, both ends included, computed as
  \<open>start + i * step\<close> with \<open>step = (stop - start) / (num - 1)\<close>; a single sample is
  \<open>start\<close>.
\<close>

definition linspace :: "real \<Rightarrow> real \<Rightarrow> nat \<Rightarrow> real list" where
  "linspace start stop num =
     (if num = 1 then [start]
      else map (\<lambda>i. start + real i * ((stop - start) / real (num - 1))) [0..<num])"

text \<open>
  \<open>np.meshgrid(x, y)\<close> with the default indexing \<open>xy\<close>: two arrays of \<open>len(y)\<close> rows
  and \<open>len(x)\<close> columns, the first repeating \<open>x\<close> in every row and the second repeating
  \<open>y\<close> in every column. An array of two dimensions is the list of its rows.
\<close>

definition meshgrid :: "'a list \<Rightarrow> 'b list \<Rightarrow> 'a list list \<times> 'b list list" where
  "meshgrid x y = (map (\<lambda>_. x) y, map (\<lambda>v. map (\<lambda>_. v) x) y)"

definition main_theta :: "real list" where
  "main_theta = linspace 0 (2 * pi) 400"

definition main_r :: "real list" where
  "main_r = linspace main_a main_b 400"

definition main_R :: "real list list" where
  "main_R = fst (meshgrid main_r main_theta)"

definition main_Theta :: "real list list" where
  "main_Theta = snd (meshgrid main_r main_theta)"

subsection \<open>The fields on the grid (main.py, lines 56 to 58, 66 and 69)\<close>

text \<open>Element-wise application of a function to three arrays of one shape.\<close>

definition elementwise3 :: "('a \<Rightarrow> 'b \<Rightarrow> 'c \<Rightarrow> 'd) \<Rightarrow> 'a list list \<Rightarrow> 'b list list \<Rightarrow> 'c list list \<Rightarrow> 'd list list" where
  "elementwise3 f A B C =
     map2 (\<lambda>row_a (row_b, row_c). map2 (\<lambda>x (y, z). f x y z) row_a (zip row_b row_c)) A (zip B C)"

definition main_sigma_xx :: "(error + real) list list" where
  "main_sigma_xx =
     map2 (map2 (\<lambda>r theta. stress_xx r theta main_P1 main_P0 main_a main_G main_G1)) main_R main_Theta"

definition main_sigma_yy :: "(error + real) list list" where
  "main_sigma_yy =
     map2 (map2 (\<lambda>r theta. stress_yy r theta main_P2 main_P0 main_a main_G main_G1)) main_R main_Theta"

definition main_sigma_xy :: "(error + real) list list" where
  "main_sigma_xy =
     map2 (map2 (\<lambda>r theta. stress_xy r theta main_P0 main_a main_G main_G1)) main_R main_Theta"

definition main_sigma_e :: "(error + real) list list" where
  "main_sigma_e =
     elementwise3 (\<lambda>sxx syy sxy.
         and_then sxx (\<lambda>sigma_xx. and_then syy (\<lambda>sigma_yy. and_then sxy (\<lambda>sigma_xy.
         sigma_e sigma_xx sigma_yy sigma_xy))))
       main_sigma_xx main_sigma_yy main_sigma_xy"

definition main_plastic_boundary :: "(error + bool) list list" where
  "main_plastic_boundary =
     map (map (\<lambda>se. and_then se (\<lambda>sigma_e_val.
         Inr (plastic_boundary sigma_e_val main_yield_stress)))) main_sigma_e"

section \<open>Basic facts\<close>

lemma sq_quotient: "(a / r)\<^sup>2 = a\<^sup>2 / (r::real)\<^sup>2"
  by (simp add: power_divide)

lemma and_then_Inr: "and_then (Inr v) f = f v"
  by (simp add: and_then_def)

lemma and_then_Inl: "and_then (Inl e) f = Inl e"
  by (simp add: and_then_def)

text \<open>
  Where a divisor is zero the functions have no real value: the hypotheses \<open>r \<noteq> 0\<close>,
  \<open>G1 \<noteq> 0\<close>, \<open>E \<noteq> 0\<close> and \<open>G \<noteq> 0\<close> of the theorems below leave out exactly these
  inputs.
\<close>

lemma stress_undefined:
  "r = 0 \<or> G1 = 0 \<longleftrightarrow> (\<exists>e. stress_xx r theta P1 P0 a G G1 = Inl e)"
  "r = 0 \<or> G1 = 0 \<longleftrightarrow> (\<exists>e. stress_yy r theta P2 P0 a G G1 = Inl e)"
  "r = 0 \<or> G1 = 0 \<longleftrightarrow> (\<exists>e. stress_xy r theta P0 a G G1 = Inl e)"
  by (simp_all add: stress_xx_def stress_yy_def stress_xy_def)

lemma strain_undefined:
  "E = 0 \<longleftrightarrow> strain_xx sigma_xx sigma_yy E nu = Inl ZeroDivisionError"
  "E = 0 \<longleftrightarrow> strain_yy sigma_xx sigma_yy E nu = Inl ZeroDivisionError"
  "G = 0 \<longleftrightarrow> strain_xy sigma_xy G = Inl ZeroDivisionError"
  by (simp_all add: strain_xx_def strain_yy_def strain_xy_def)

section \<open>The closed forms of the evaluators\<close>

text \<open>
  Claim C1. For every \<open>r \<noteq> 0\<close> and every \<open>theta\<close> the three stress functions return
  the closed forms of the specification, written with \<open>(a / r)\<^sup>2\<close>:
  \<open>P1 (1 + (a/r)\<^sup>2 cos 2\<theta>) + P0 (a/r)\<^sup>2 cos 2\<theta> (G/G1)\<close> for \<open>stress_xx\<close>,
  \<open>P2 (1 - (a/r)\<^sup>2 cos 2\<theta>) + P0 (a/r)\<^sup>2 cos 2\<theta> (G/G1)\<close> for \<open>stress_yy\<close> and
  \<open>- P0 (a/r)\<^sup>2 sin 2\<theta> (G/G1)\<close> for \<open>stress_xy\<close>. The closed forms contain
  the quotient \<open>G / G1\<close>, so they are stated where it exists, \<open>G1 \<noteq> 0\<close>; the loads, the
  semi-axis \<open>a\<close> and \<open>G\<close> are arbitrary.
\<close>

theorem stress_closed_forms:
  assumes "r \<noteq> 0" and "G1 \<noteq> 0"
  shows "stress_xx r theta P1 P0 a G G1 =
           Inr (P1 * (1 + (a / r)\<^sup>2 * cos (2 * theta)) + P0 * (a / r)\<^sup>2 * cos (2 * theta) * (G / G1))
       \<and> stress_yy r theta P2 P0 a G G1 =
           Inr (P2 * (1 - (a / r)\<^sup>2 * cos (2 * theta)) + P0 * (a / r)\<^sup>2 * cos (2 * theta) * (G / G1))
       \<and> stress_xy r theta P0 a G G1 =
           Inr (- P0 * (a / r)\<^sup>2 * sin (2 * theta) * (G / G1))"
  using assms by (simp add: stress_xx_def stress_yy_def stress_xy_def sq_quotient)

theorem stress_closed_forms_witness:
  "(2::real) \<noteq> 0 \<and> (1216::real) \<noteq> 0
   \<and> stress_xx 2 0 150 50 1 810 1216 = Inr (150 * (1 + (1 / 2)\<^sup>2) + 50 * (1 / 2)\<^sup>2 * (810 / 1216))
   \<and> stress_yy 2 0 150 50 1 810 1216 = Inr (150 * (1 - (1 / 2)\<^sup>2) + 50 * (1 / 2)\<^sup>2 * (810 / 1216))
   \<and> stress_xy 2 0 50 1 810 1216 = Inr 0"
  using stress_closed_forms [where r = 2 and ?G1.0 = 1216 and theta = 0 and ?P1.0 = 150
      and ?P2.0 = 150 and ?P0.0 = 50 and a = 1 and G = 810]
  by simp

text \<open>
  Claim C4. For all stress values the three strain functions return the plane-stress
  Hooke's law values \<open>(\<sigma>xx - \<nu> \<sigma>yy) / E\<close>, \<open>(\<sigma>yy - \<nu> \<sigma>xx) / E\<close> and \<open>\<sigma>xy / G\<close>,
  given \<open>E \<noteq> 0\<close> and \<open>G \<noteq> 0\<close>.
\<close>

theorem strain_hooke:
  assumes "E \<noteq> 0" and "G \<noteq> 0"
  shows "strain_xx sigma_xx sigma_yy E nu = Inr ((sigma_xx - nu * sigma_yy) / E)
       \<and> strain_yy sigma_xx sigma_yy E nu = Inr ((sigma_yy - nu * sigma_xx) / E)
       \<and> strain_xy sigma_xy G = Inr (sigma_xy / G)"
  using assms by (simp add: strain_xx_def strain_yy_def strain_xy_def)

theorem strain_hooke_witness:
  "(200000::real) \<noteq> 0 \<and> (810::real) \<noteq> 0
   \<and> strain_xx 300 100 200000 (3 / 10) = Inr ((300 - (3 / 10) * 100) / 200000)
   \<and> strain_yy 300 100 200000 (3 / 10) = Inr ((100 - (3 / 10) * 300) / 200000)
   \<and> strain_xy 81 810 = Inr (81 / 810)"
  using strain_hooke [where E = 200000 and G = 810 and sigma_xx = 300 and sigma_yy = 100
      and nu = "3 / 10" and sigma_xy = 81]
  by simp

text \<open>
  Claim C5. At \<open>theta = 0\<close> and \<open>r = a\<close>, with \<open>P1 = 150\<close>, \<open>P0 = 50\<close>, \<open>G = 810\<close> and
  \<open>G1 = 1216\<close>, \<open>stress_xx\<close> is said to be \<open>150 (1 + 1) + 50 (810 / 1216)\<close>, about
  \<open>333.22\<close>. The expression is what the code returns, but its value is
  \<open>101325 / 304 = 333.3059...\<close>: it lies more than \<open>0.08\<close> above \<open>333.22\<close>.
\<close>

theorem stress_xx_fixture_not_333_22:
  "stress_xx main_a 0 150 50 main_a 810 1216 = Inr (101325 / 304)
   \<and> (0.08 :: real) < 101325 / 304 - 333.22"
  by (simp add: stress_xx_def main_a_def)

text \<open>
  Claim C5, amended. At \<open>theta = 0\<close> and \<open>r = a\<close>, with \<open>P1 = 150\<close>, \<open>P0 = 50\<close>,
  \<open>G = 810\<close> and \<open>G1 = 1216\<close>, \<open>stress_xx\<close> returns
  \<open>150 (1 + 1) + 50 \<cdot> 1 \<cdot> (810 / 1216) = 101325 / 304\<close>, which is \<open>333.31\<close> to
  two decimals. These are the parameters of the script.
\<close>

theorem stress_xx_fixture:
  "stress_xx main_a 0 150 50 main_a 810 1216 = Inr (150 * (1 + 1) + 50 * 1 * (810 / 1216))
   \<and> (150 * (1 + 1) + 50 * 1 * (810 / 1216) :: real) = 101325 / 304
   \<and> (333.305 :: real) \<le> 101325 / 304 \<and> (101325 / 304 :: real) < 333.315
   \<and> main_P1 = 150 \<and> main_P0 = 50 \<and> main_G = 810 \<and> main_G1 = 1216"
  by (simp add: stress_xx_def main_a_def main_P1_def main_P0_def main_G_def main_G1_def)

section \<open>The equivalent stress\<close>

lemma radicand_nonneg: "0 \<le> x\<^sup>2 + y\<^sup>2 - x * y + 3 * z\<^sup>2" for x y z :: real
proof -
  have "x\<^sup>2 + y\<^sup>2 - x * y + 3 * z\<^sup>2 = (x - y / 2)\<^sup>2 + 3 * (y / 2)\<^sup>2 + 3 * z\<^sup>2"
    by (simp add: power2_eq_square algebra_simps)
  also have "0 \<le> \<dots>" by simp
  finally show ?thesis .
qed

lemma sigma_e_Inr:
  "sigma_e x y z = Inr (sqrt (x\<^sup>2 + y\<^sup>2 - x * y + 3 * z\<^sup>2))"
  using radicand_nonneg [of x y z] by (simp add: sigma_e_def not_less [symmetric])

text \<open>
  Claim C7. For all real stress values the radicand
  \<open>\<sigma>xx\<^sup>2 + \<sigma>yy\<^sup>2 - \<sigma>xx \<sigma>yy + 3 \<sigma>xy\<^sup>2\<close> is non-negative: the square root never
  receives a negative argument (the result is never the \<open>nan\<close> of \<open>np.sqrt\<close>), and the
  equivalent stress is a real number that is not negative.
\<close>

theorem sigma_e_real_nonneg:
  "0 \<le> sigma_xx\<^sup>2 + sigma_yy\<^sup>2 - sigma_xx * sigma_yy + 3 * sigma_xy\<^sup>2
   \<and> sigma_e sigma_xx sigma_yy sigma_xy
       = Inr (sqrt (sigma_xx\<^sup>2 + sigma_yy\<^sup>2 - sigma_xx * sigma_yy + 3 * sigma_xy\<^sup>2))
   \<and> 0 \<le> sqrt (sigma_xx\<^sup>2 + sigma_yy\<^sup>2 - sigma_xx * sigma_yy + 3 * sigma_xy\<^sup>2)"
  using radicand_nonneg [of sigma_xx sigma_yy sigma_xy]
  by (simp add: sigma_e_def not_less [symmetric])

section \<open>Symmetry in the angle\<close>

lemma stress_xy_pi_periodic:
  "stress_xy r (theta + pi) P0 a G G1 = stress_xy r theta P0 a G G1"
proof -
  have "sin (2 * (theta + pi)) = sin (2 * theta + 2 * pi)" by (simp add: algebra_simps)
  then have "sin (2 * (theta + pi)) = sin (2 * theta)" by simp
  then show ?thesis by (simp add: stress_xy_def)
qed

lemma stress_xy_quarter:
  "stress_xy main_a (pi / 4) main_P0 main_a main_G main_G1 = Inr (- (10125 / 304))"
proof -
  have "sin (2 * (pi / 4)) = 1" by simp
  then show ?thesis
    by (simp add: stress_xy_def main_a_def main_P0_def main_G_def main_G1_def)
qed

text \<open>
  Claim C8. For every \<open>r \<noteq> 0\<close> and every \<open>theta\<close> (and \<open>G1 \<noteq> 0\<close>, so that the
  stresses exist): \<open>stress_xy\<close> is odd in \<open>theta\<close>,
  \<open>stress_xy(r, \<theta>) = - stress_xy(r, - \<theta>)\<close>; \<open>stress_xx\<close> and \<open>stress_yy\<close> are even in
  \<open>theta\<close>; and \<open>stress_xy(r, \<theta>) = - stress_xy(r, \<theta> + \<pi>)\<close> is false in general: with
  the parameters of the script it fails for some \<open>r \<noteq> 0\<close> and \<open>theta\<close> (at \<open>r = a\<close>,
  \<open>theta = \<pi> / 4\<close>, where both sides of the shift have the value \<open>- 10125 / 304\<close>).
\<close>

theorem stress_symmetry:
  assumes "r \<noteq> 0" and "G1 \<noteq> 0"
  shows "(\<exists>s. stress_xy r theta P0 a G G1 = Inr s \<and> stress_xy r (- theta) P0 a G G1 = Inr (- s))
       \<and> (\<exists>s. stress_xx r theta P1 P0 a G G1 = Inr s \<and> stress_xx r (- theta) P1 P0 a G G1 = Inr s)
       \<and> (\<exists>s. stress_yy r theta P2 P0 a G G1 = Inr s \<and> stress_yy r (- theta) P2 P0 a G G1 = Inr s)
       \<and> (\<exists>r' theta' s t. r' \<noteq> 0
             \<and> stress_xy r' theta' main_P0 main_a main_G main_G1 = Inr s
             \<and> stress_xy r' (theta' + pi) main_P0 main_a main_G main_G1 = Inr t
             \<and> s \<noteq> - t)"
proof -
  have odd: "\<exists>s. stress_xy r theta P0 a G G1 = Inr s \<and> stress_xy r (- theta) P0 a G G1 = Inr (- s)"
    using assms by (simp add: stress_xy_def)
  have even_xx: "\<exists>s. stress_xx r theta P1 P0 a G G1 = Inr s \<and> stress_xx r (- theta) P1 P0 a G G1 = Inr s"
    using assms by (simp add: stress_xx_def)
  have even_yy: "\<exists>s. stress_yy r theta P2 P0 a G G1 = Inr s \<and> stress_yy r (- theta) P2 P0 a G G1 = Inr s"
    using assms by (simp add: stress_yy_def)
  have "main_a \<noteq> 0" by (simp add: main_a_def)
  moreover have "stress_xy main_a (pi / 4 + pi) main_P0 main_a main_G main_G1 = Inr (- (10125 / 304))"
    by (simp only: stress_xy_pi_periodic stress_xy_quarter)
  moreover have "- (10125 / 304) \<noteq> - (- (10125 / 304 :: real))" by simp
  ultimately have shift: "\<exists>r' theta' s t. r' \<noteq> 0
             \<and> stress_xy r' theta' main_P0 main_a main_G main_G1 = Inr s
             \<and> stress_xy r' (theta' + pi) main_P0 main_a main_G main_G1 = Inr t
             \<and> s \<noteq> - t"
    using stress_xy_quarter by blast
  from odd even_xx even_yy shift show ?thesis by blast
qed

theorem stress_symmetry_witness:
  "(2::real) \<noteq> 0 \<and> (1216::real) \<noteq> 0
   \<and> (\<exists>s. stress_xy 2 1 50 1 810 1216 = Inr s \<and> stress_xy 2 (- 1) 50 1 810 1216 = Inr (- s))
   \<and> (\<exists>s. stress_xx 2 1 150 50 1 810 1216 = Inr s \<and> stress_xx 2 (- 1) 150 50 1 810 1216 = Inr s)
   \<and> (\<exists>s. stress_yy 2 1 150 50 1 810 1216 = Inr s \<and> stress_yy 2 (- 1) 150 50 1 810 1216 = Inr s)"
proof -
  have h1: "(2::real) \<noteq> 0" by simp
  have h2: "(1216::real) \<noteq> 0" by simp
  show ?thesis
    using h1 h2 stress_symmetry [where r = 2 and ?G1.0 = 1216 and theta = 1 and ?P0.0 = 50
        and a = 1 and G = 810 and ?P1.0 = 150 and ?P2.0 = 150, OF h1 h2]
    by blast
qed

section \<open>Linearity in the loads\<close>

lemma e_xx_value:
  assumes "r \<noteq> 0" and "G1 \<noteq> 0" and "E \<noteq> 0"
  shows "e_xx r theta P1 P2 P0 a G G1 E nu =
           Inr ((1 / E) * ((P1 * (1 + (a\<^sup>2 / r\<^sup>2) * cos (2 * theta))
                              + P0 * (a\<^sup>2 / r\<^sup>2) * cos (2 * theta) * (G / G1))
                           - nu * (P2 * (1 - (a\<^sup>2 / r\<^sup>2) * cos (2 * theta))
                              + P0 * (a\<^sup>2 / r\<^sup>2) * cos (2 * theta) * (G / G1))))"
  using assms
  by (simp add: e_xx_def stress_xx_def stress_yy_def strain_xx_def and_then_Inr)

text \<open>
  Claim C9. For fixed \<open>r \<noteq> 0\<close> and \<open>theta\<close> (and \<open>G1 \<noteq> 0\<close>, \<open>E \<noteq> 0\<close>, so that the
  strain exists) the strain
  \<open>e_xx = strain_xx(stress_xx(r, \<theta>, P1, P0, a, G, G1), stress_yy(r, \<theta>, P2, P0, a, G, G1), E, \<nu>)\<close>
  is linear in the loads \<open>(P1, P2, P0)\<close>: scaling the three loads by \<open>c\<close> scales
  \<open>e_xx\<close> by \<open>c\<close>, and \<open>e_xx\<close> of the sum of two load vectors is the sum of their
  \<open>e_xx\<close> values.
\<close>

theorem e_xx_linear:
  assumes "r \<noteq> 0" and "G1 \<noteq> 0" and "E \<noteq> 0"
  shows "\<exists>e1 e2. e_xx r theta P1 P2 P0 a G G1 E nu = Inr e1
           \<and> e_xx r theta Q1 Q2 Q0 a G G1 E nu = Inr e2
           \<and> e_xx r theta (c * P1) (c * P2) (c * P0) a G G1 E nu = Inr (c * e1)
           \<and> e_xx r theta (P1 + Q1) (P2 + Q2) (P0 + Q0) a G G1 E nu = Inr (e1 + e2)"
proof -
  define q where "q = (a\<^sup>2 / r\<^sup>2) * cos (2 * theta)"
  define k where "k = G / G1"
  define w where "w = 1 / E"
  define v where "v = (\<lambda>L1 L2 L0. w * ((L1 * (1 + q) + L0 * q * k) - nu * (L2 * (1 - q) + L0 * q * k)))"
  have val: "e_xx r theta L1 L2 L0 a G G1 E nu = Inr (v L1 L2 L0)" for L1 L2 L0
    unfolding v_def w_def q_def k_def e_xx_value [OF assms]
    by (simp add: mult.assoc)
  have scale: "v (c * P1) (c * P2) (c * P0) = c * v P1 P2 P0"
    by (simp add: v_def algebra_simps)
  have add: "v (P1 + Q1) (P2 + Q2) (P0 + Q0) = v P1 P2 P0 + v Q1 Q2 Q0"
    by (simp add: v_def algebra_simps)
  have "e_xx r theta (c * P1) (c * P2) (c * P0) a G G1 E nu = Inr (c * v P1 P2 P0)"
    by (simp only: val scale)
  moreover have "e_xx r theta (P1 + Q1) (P2 + Q2) (P0 + Q0) a G G1 E nu = Inr (v P1 P2 P0 + v Q1 Q2 Q0)"
    by (simp only: val add)
  ultimately show ?thesis
    using val [of P1 P2 P0] val [of Q1 Q2 Q0] by blast
qed

theorem e_xx_linear_witness:
  "(2::real) \<noteq> 0 \<and> (1216::real) \<noteq> 0 \<and> (200000::real) \<noteq> 0
   \<and> (\<exists>e1 e2. e_xx 2 0 150 150 50 1 810 1216 200000 (3 / 10) = Inr e1
           \<and> e_xx 2 0 10 20 30 1 810 1216 200000 (3 / 10) = Inr e2
           \<and> e_xx 2 0 (7 * 150) (7 * 150) (7 * 50) 1 810 1216 200000 (3 / 10) = Inr (7 * e1)
           \<and> e_xx 2 0 (150 + 10) (150 + 20) (50 + 30) 1 810 1216 200000 (3 / 10) = Inr (e1 + e2))"
proof -
  have h1: "(2::real) \<noteq> 0" by simp
  have h2: "(1216::real) \<noteq> 0" by simp
  have h3: "(200000::real) \<noteq> 0" by simp
  show ?thesis
    using h1 h2 h3 e_xx_linear [where r = 2 and ?G1.0 = 1216 and E = 200000 and theta = 0
        and ?P1.0 = 150 and ?P2.0 = 150 and ?P0.0 = 50 and ?Q1.0 = 10 and ?Q2.0 = 20
        and ?Q0.0 = 30 and c = 7 and a = 1 and G = 810 and nu = "3 / 10", OF h1 h2 h3]
    by blast
qed

section \<open>The shear strain does not depend on the plate's shear modulus\<close>

text \<open>
  Claim C10. For every \<open>r \<noteq> 0\<close>, every \<open>theta\<close>, every \<open>G \<noteq> 0\<close> and \<open>G1 \<noteq> 0\<close> the
  composed shear strain \<open>strain_xy(stress_xy(r, \<theta>, P0, a, G, G1), G)\<close> is
  \<open>- P0 (a\<^sup>2 / r\<^sup>2) sin 2\<theta> / G1\<close>: the factor \<open>G\<close> cancels, and any other plate modulus
  \<open>G' \<noteq> 0\<close> gives the same shear strain.
\<close>

theorem e_xy_independent_of_G:
  assumes "r \<noteq> 0" and "G \<noteq> 0" and "G1 \<noteq> 0" and "G' \<noteq> 0"
  shows "e_xy r theta P0 a G G1 = Inr (- P0 * (a\<^sup>2 / r\<^sup>2) * sin (2 * theta) / G1)
       \<and> e_xy r theta P0 a G' G1 = e_xy r theta P0 a G G1"
  using assms
  by (simp add: e_xy_def stress_xy_def strain_xy_def and_then_Inr)

theorem e_xy_independent_of_G_witness:
  "(2::real) \<noteq> 0 \<and> (810::real) \<noteq> 0 \<and> (1216::real) \<noteq> 0 \<and> (5::real) \<noteq> 0
   \<and> e_xy 2 (pi / 4) 50 1 810 1216 = Inr (- 50 * (1\<^sup>2 / 2\<^sup>2) * sin (2 * (pi / 4)) / 1216)
   \<and> e_xy 2 (pi / 4) 50 1 5 1216 = e_xy 2 (pi / 4) 50 1 810 1216"
proof -
  have h1: "(2::real) \<noteq> 0" by simp
  have h2: "(810::real) \<noteq> 0" by simp
  have h3: "(1216::real) \<noteq> 0" by simp
  have h4: "(5::real) \<noteq> 0" by simp
  show ?thesis
    using h1 h2 h3 h4 e_xy_independent_of_G [where r = 2 and G = 810 and ?G1.0 = 1216
        and G' = 5 and theta = "pi / 4" and ?P0.0 = 50 and a = 1, OF h1 h2 h3 h4]
    by blast
qed

section \<open>The grid\<close>

lemma length_linspace: "length (linspace start stop num) = num"
  by (simp add: linspace_def)

lemma linspace_nth:
  "i < num \<Longrightarrow> linspace start stop num ! i = start + real i * ((stop - start) / real (num - 1))"
  by (auto simp add: linspace_def)

lemma meshgrid_shape:
  "length (fst (meshgrid x y)) = length y \<and> length (snd (meshgrid x y)) = length y
   \<and> (\<forall>i < length y. length (fst (meshgrid x y) ! i) = length x
                     \<and> length (snd (meshgrid x y) ! i) = length x)"
  by (simp add: meshgrid_def)

lemma meshgrid_nth:
  "i < length y \<Longrightarrow> j < length x \<Longrightarrow>
     fst (meshgrid x y) ! i ! j = x ! j \<and> snd (meshgrid x y) ! i ! j = y ! i"
  by (simp add: meshgrid_def)

lemma length_main_r: "length main_r = 400"
  by (simp add: main_r_def length_linspace)

lemma length_main_theta: "length main_theta = 400"
  by (simp add: main_theta_def length_linspace)

lemma main_r_nth: "j < 400 \<Longrightarrow> main_r ! j = 0.02 - real j * (0.005 / 399)"
  by (simp add: main_r_def main_a_def main_b_def linspace_nth)

lemma main_theta_nth: "i < 400 \<Longrightarrow> main_theta ! i = real i * (2 * pi / 399)"
  by (simp add: main_theta_def linspace_nth)

lemma main_r_between:
  assumes "j < 400"
  shows "main_b \<le> main_r ! j \<and> main_r ! j \<le> main_a"
proof -
  have "real j \<le> 399" using assms by simp
  then have "real j * (0.005 / 399) \<le> 399 * (0.005 / 399)"
    by (intro mult_right_mono) simp_all
  then have "real j * (0.005 / 399) \<le> 0.005" by simp
  moreover have "0 \<le> real j * (0.005 / 399)" by simp
  ultimately show ?thesis
    using assms by (simp add: main_r_nth main_a_def main_b_def)
qed

lemma main_theta_between:
  assumes "i < 400"
  shows "0 \<le> main_theta ! i \<and> main_theta ! i \<le> 2 * pi"
proof -
  have "real i \<le> 399" using assms by simp
  then have "real i * (2 * pi / 399) \<le> 399 * (2 * pi / 399)"
    by (intro mult_right_mono) simp_all
  then show ?thesis using assms by (simp add: main_theta_nth)
qed

lemma main_grid_shape:
  "length main_R = 400 \<and> length main_Theta = 400
   \<and> (\<forall>i < 400. length (main_R ! i) = 400 \<and> length (main_Theta ! i) = 400)"
  using meshgrid_shape [of main_r main_theta]
  by (simp add: main_R_def main_Theta_def length_main_r length_main_theta)

lemma main_grid_nth:
  "i < 400 \<Longrightarrow> j < 400 \<Longrightarrow> main_R ! i ! j = main_r ! j \<and> main_Theta ! i ! j = main_theta ! i"
  using meshgrid_nth [of i main_theta j main_r]
  by (simp add: main_R_def main_Theta_def length_main_r length_main_theta)

lemma elementwise3_nth:
  assumes "i < length A" "i < length B" "i < length C"
    and "j < length (A ! i)" "j < length (B ! i)" "j < length (C ! i)"
  shows "elementwise3 f A B C ! i ! j = f (A ! i ! j) (B ! i ! j) (C ! i ! j)"
  using assms by (simp add: elementwise3_def)

lemma main_sigma_nth:
  assumes "i < 400" and "j < 400"
  shows "main_sigma_xx ! i ! j = stress_xx (main_r ! j) (main_theta ! i) main_P1 main_P0 main_a main_G main_G1"
    and "main_sigma_yy ! i ! j = stress_yy (main_r ! j) (main_theta ! i) main_P2 main_P0 main_a main_G main_G1"
    and "main_sigma_xy ! i ! j = stress_xy (main_r ! j) (main_theta ! i) main_P0 main_a main_G main_G1"
  using assms main_grid_shape main_grid_nth [OF assms]
  by (simp_all add: main_sigma_xx_def main_sigma_yy_def main_sigma_xy_def)

lemma main_sigma_shape:
  "length main_sigma_xx = 400 \<and> length main_sigma_yy = 400 \<and> length main_sigma_xy = 400
   \<and> (\<forall>i < 400. length (main_sigma_xx ! i) = 400 \<and> length (main_sigma_yy ! i) = 400
                 \<and> length (main_sigma_xy ! i) = 400)"
  using main_grid_shape
  by (simp add: main_sigma_xx_def main_sigma_yy_def main_sigma_xy_def)

lemma main_sigma_e_shape:
  "length main_sigma_e = 400 \<and> (\<forall>i < 400. length (main_sigma_e ! i) = 400)"
  using main_sigma_shape by (simp add: main_sigma_e_def elementwise3_def)

lemma main_sigma_e_nth:
  assumes "i < 400" and "j < 400"
  shows "main_sigma_e ! i ! j =
     and_then (main_sigma_xx ! i ! j) (\<lambda>sigma_xx. and_then (main_sigma_yy ! i ! j) (\<lambda>sigma_yy.
     and_then (main_sigma_xy ! i ! j) (\<lambda>sigma_xy. sigma_e sigma_xx sigma_yy sigma_xy)))"
  unfolding main_sigma_e_def
  using assms main_sigma_shape by (subst elementwise3_nth) simp_all

lemma main_plastic_boundary_nth:
  assumes "i < 400" and "j < 400"
  shows "main_plastic_boundary ! i ! j =
     and_then (main_sigma_e ! i ! j) (\<lambda>v. Inr (plastic_boundary v main_yield_stress))"
  using assms main_sigma_e_shape by (simp add: main_plastic_boundary_def)

lemma grid_origin: "main_R ! 0 ! 0 = main_a"
  using main_grid_nth [of 0 0] main_r_nth [of 0] by (simp add: main_a_def)

lemma grid_last: "main_R ! 0 ! 399 = main_b"
  using main_grid_nth [of 0 399] main_r_nth [of 399] by (simp add: main_b_def)

lemma main_r_inj:
  assumes "j < 400" and "j' < 400" and "main_r ! j = main_r ! j'"
  shows "j = j'"
  using assms by (simp add: main_r_nth)

lemma main_theta_inj:
  assumes "i < 400" and "i' < 400" and "main_theta ! i = main_theta ! i'"
  shows "i = i'"
  using assms by (simp add: main_theta_nth)

text \<open>
  Every pair of one radial and one angular sample is the coordinate pair of exactly one
  grid position: position \<open>(i, j)\<close> holds the \<open>j\<close>-th radial and the \<open>i\<close>-th angular
  sample (\<open>main_grid_nth\<close>), and no two positions hold the same pair.
\<close>

lemma main_grid_points_once:
  assumes "i < 400" "j < 400" "i' < 400" "j' < 400"
    and "main_R ! i ! j = main_R ! i' ! j'" and "main_Theta ! i ! j = main_Theta ! i' ! j'"
  shows "i = i' \<and> j = j'"
  using assms main_grid_nth [of i j] main_grid_nth [of i' j']
    main_r_inj [of j j'] main_theta_inj [of i i'] by simp

text \<open>
  The radial samples run downwards from \<open>a = 0.02\<close> to \<open>b = 0.015\<close>: every grid point
  has \<open>b \<le> r \<le> a\<close>, and its angle lies between \<open>0\<close> and \<open>2 \<pi>\<close>.
\<close>

lemma main_R_between:
  assumes "i < 400" and "j < 400"
  shows "main_b \<le> main_R ! i ! j \<and> main_R ! i ! j \<le> main_a"
  using main_grid_nth [OF assms] main_r_between [OF assms(2)] by simp

lemma main_Theta_between:
  assumes "i < 400" and "j < 400"
  shows "0 \<le> main_Theta ! i ! j \<and> main_Theta ! i ! j \<le> 2 * pi"
  using main_grid_nth [OF assms] main_theta_between [OF assms(1)] by simp

text \<open>
  Claim C2 says that every grid point has \<open>a \<le> r \<le> b\<close>, with \<open>a = 0.02\<close> and
  \<open>b = 0.015\<close>. The script sets the radius \<open>b\<close> of the plate below the radius \<open>a\<close>
  of the inclusion, so no point of its grid is in that range: the first column of \<open>R\<close>
  holds \<open>r = a\<close>, which is above \<open>b\<close>, and the last column holds \<open>r = b\<close>, which is
  below \<open>a\<close>. (The shape of the grid, the range of the angle and the pairing of the
  samples are as the claim says: \<open>main_grid_shape\<close>, \<open>main_Theta_between\<close>,
  \<open>main_grid_nth\<close> and \<open>main_grid_points_once\<close>.)
\<close>

theorem radial_domain_inverted:
  "main_a = 0.02 \<and> main_b = 0.015
   \<and> main_R ! 0 ! 0 = main_a \<and> main_b < main_R ! 0 ! 0
   \<and> main_R ! 0 ! 399 = main_b \<and> main_R ! 0 ! 399 < main_a"
  using grid_origin grid_last by (simp add: main_a_def main_b_def)

section \<open>The modulation term over the radial domain\<close>

lemma modulation_least_at_a:
  assumes "j < 400"
  shows "main_a\<^sup>2 / (main_r ! 0)\<^sup>2 \<le> main_a\<^sup>2 / (main_r ! j)\<^sup>2"
proof -
  have r0: "main_r ! 0 = main_a" using main_r_nth [of 0] by (simp add: main_a_def)
  have pos: "0 < main_r ! j" using main_r_between [OF assms] by (simp add: main_b_def)
  have le: "main_r ! j \<le> main_a" using main_r_between [OF assms] by simp
  have "(main_r ! j)\<^sup>2 \<le> main_a\<^sup>2" using pos le by (simp add: power_mono)
  moreover have "0 < (main_r ! j)\<^sup>2" using pos by simp
  ultimately have "1 \<le> main_a\<^sup>2 / (main_r ! j)\<^sup>2" by simp
  moreover have "main_a\<^sup>2 / (main_r ! 0)\<^sup>2 = 1" by (simp add: r0 main_a_def)
  ultimately show ?thesis by simp
qed

text \<open>
  Claim C6 says that, with \<open>a = 0.02\<close> and \<open>b = 0.015\<close>, the factor \<open>(a / r)\<^sup>2\<close> is
  \<open>1\<close> at \<open>r = a\<close> and below \<open>1\<close> at \<open>r = b\<close>, and so greatest at the inclusion
  boundary \<open>r = a\<close>. In the script the term \<open>a**2 / r**2\<close> is \<open>1\<close> at the radial sample
  \<open>r = a\<close> and \<open>16 / 9\<close> at the radial sample \<open>r = b\<close>: it is least at \<open>r = a\<close>
  (\<open>modulation_least_at_a\<close>) and greater at \<open>r = b\<close>.
\<close>

theorem modulation_larger_at_b:
  "main_a\<^sup>2 / (main_R ! 0 ! 0)\<^sup>2 = 1
   \<and> main_a\<^sup>2 / (main_R ! 0 ! 399)\<^sup>2 = 16 / 9
   \<and> main_a\<^sup>2 / (main_R ! 0 ! 0)\<^sup>2 < main_a\<^sup>2 / (main_R ! 0 ! 399)\<^sup>2"
  by (simp add: grid_origin grid_last main_a_def main_b_def power2_eq_square)

section \<open>The yield mask on the grid\<close>

text \<open>
  Claim C3. At every grid point \<open>(i, j)\<close> the three stresses are real numbers, the
  equivalent stress is \<open>\<sigma>e = sqrt (\<sigma>xx\<^sup>2 + \<sigma>yy\<^sup>2 - \<sigma>xx \<sigma>yy + 3 \<sigma>xy\<^sup>2)\<close> of the stresses
  at that point, and the mask is \<open>plastic_boundary[i, j] = (\<sigma>e[i, j] > \<sigma>_y)\<close> with the
  yield stress \<open>\<sigma>_y = 250\<close>.
\<close>

theorem yield_mask:
  assumes "i < 400" and "j < 400"
  shows "\<exists>sxx syy sxy se.
           main_sigma_xx ! i ! j = Inr sxx \<and> main_sigma_yy ! i ! j = Inr syy
         \<and> main_sigma_xy ! i ! j = Inr sxy
         \<and> main_sigma_e ! i ! j = Inr se
         \<and> se = sqrt (sxx\<^sup>2 + syy\<^sup>2 - sxx * syy + 3 * sxy\<^sup>2)
         \<and> main_plastic_boundary ! i ! j = Inr (se > main_yield_stress)
         \<and> main_yield_stress = 250"
proof -
  have r: "main_r ! j \<noteq> 0"
    using main_r_between [OF assms(2)] by (simp add: main_b_def)
  have g: "main_G1 \<noteq> 0" by (simp add: main_G1_def)
  obtain sxx where sxx: "main_sigma_xx ! i ! j = Inr sxx"
    using r g by (simp add: main_sigma_nth [OF assms] stress_xx_def)
  obtain syy where syy: "main_sigma_yy ! i ! j = Inr syy"
    using r g by (simp add: main_sigma_nth [OF assms] stress_yy_def)
  obtain sxy where sxy: "main_sigma_xy ! i ! j = Inr sxy"
    using r g by (simp add: main_sigma_nth [OF assms] stress_xy_def)
  have se: "main_sigma_e ! i ! j = Inr (sqrt (sxx\<^sup>2 + syy\<^sup>2 - sxx * syy + 3 * sxy\<^sup>2))"
    by (simp add: main_sigma_e_nth [OF assms] sxx syy sxy and_then_Inr sigma_e_Inr)
  have "main_plastic_boundary ! i ! j
          = Inr (sqrt (sxx\<^sup>2 + syy\<^sup>2 - sxx * syy + 3 * sxy\<^sup>2) > main_yield_stress)"
    by (simp add: main_plastic_boundary_nth [OF assms] se and_then_Inr plastic_boundary_def)
  moreover have "main_yield_stress = 250" by (simp add: main_yield_stress_def)
  ultimately show ?thesis using sxx syy sxy se by blast
qed

theorem yield_mask_witness:
  "(0::nat) < 400 \<and> (399::nat) < 400
   \<and> (\<exists>sxx syy sxy se.
           main_sigma_xx ! 0 ! 399 = Inr sxx \<and> main_sigma_yy ! 0 ! 399 = Inr syy
         \<and> main_sigma_xy ! 0 ! 399 = Inr sxy
         \<and> main_sigma_e ! 0 ! 399 = Inr se
         \<and> se = sqrt (sxx\<^sup>2 + syy\<^sup>2 - sxx * syy + 3 * sxy\<^sup>2)
         \<and> main_plastic_boundary ! 0 ! 399 = Inr (se > main_yield_stress)
         \<and> main_yield_stress = 250)"
proof -
  have h1: "(0::nat) < 400" by simp
  have h2: "(399::nat) < 400" by simp
  show ?thesis using h1 h2 yield_mask [OF h1 h2] by blast
qed

end
